theory Spec2Isabelle
  imports Main "HOL-Library.Word" "HOL-Library.Signed_Division" "HOL-Library.Log_Nat"
begin

unbundle bit_operations_syntax

section \<open>Machine model\<close>

text \<open>
  The decoder of \<^verbatim>\<open>main.cpp\<close> is C++20 (it includes \<^verbatim>\<open><format>\<close>), so integer
  conversions are modular, \<^verbatim>\<open><<\<close> on signed operands is modular and \<^verbatim>\<open>>>\<close> on signed
  operands is the arithmetic shift. Fixed-width integers are words: \<open>+\<close>, \<open>-\<close> and \<open>*\<close>
  wrap around (the result a two's-complement machine produces where the standard
  leaves signed overflow undefined), \<open>ucast\<close> zero-extends or truncates, \<open>scast\<close>
  sign-extends, \<open>push_bit\<close> is \<^verbatim>\<open><<\<close> and \<open>signed_drop_bit\<close> is \<^verbatim>\<open>>>\<close> on a signed
  operand. A signed and an unsigned type of the same width share the word type; the
  signedness shows in the conversions and shifts applied to them.
\<close>

type_synonym u8 = "8 word"
type_synonym u16 = "16 word"
type_synonym i16 = "16 word"
type_synonym u32 = "32 word"
type_synonym i32 = "32 word"
type_synonym i64 = "64 word"

text \<open>
  The functions take \<^verbatim>\<open>const uint8_t *\<close> without a length and return plain values:
  the source has no error path. What can go wrong is undefined behaviour, which the
  model records as a fault: a read at or past the end of the array the pointer points
  into, and the two operand pairs on which the 64-bit division traps.
\<close>

datatype fault = OutOfBoundsRead | DivideByZero | DivideOverflow

definition bindF :: "fault + 'a \<Rightarrow> ('a \<Rightarrow> fault + 'b) \<Rightarrow> fault + 'b" where
  "bindF m f = (case m of Inl e \<Rightarrow> Inl e | Inr x \<Rightarrow> f x)"

text \<open>
  A pointer is the list of the bytes from the pointed-to position to the end of the
  array: \<^verbatim>\<open>data[i]\<close> is \<open>rd data i\<close> and \<^verbatim>\<open>data + k\<close> is \<open>drop k data\<close>.
\<close>

definition rd :: "u8 list \<Rightarrow> nat \<Rightarrow> fault + u8" where
  "rd data i = (if i < length data then Inr (data ! i) else Inl OutOfBoundsRead)"

text \<open>
  \<^verbatim>\<open>a / b\<close> on \<^verbatim>\<open>int64_t\<close>: the quotient truncated towards zero; dividing by zero and
  dividing the least value by \<open>-1\<close> are undefined.
\<close>

definition sdiv64 :: "i64 \<Rightarrow> i64 \<Rightarrow> fault + i64" where
  "sdiv64 a b =
     (if b = 0 then Inl DivideByZero
      else if a = push_bit 63 1 \<and> b = - 1 then Inl DivideOverflow
      else Inr (word_of_int (sint a sdiv sint b)))"

subsection \<open>Floating point\<close>

text \<open>
  \<^verbatim>\<open>float\<close> is IEEE 754 binary32 (24-bit significand) and \<^verbatim>\<open>double\<close> is binary64
  (53-bit significand); every operation rounds its exact result to the nearest
  representable value, ties to the even significand, and each expression is evaluated
  in the precision of its type. A floating-point value is modelled by the rational
  number it denotes. The values that occur here are quotients of a 32-bit integer by
  100 and of a 64-bit integer by 256: they are 0 or of magnitude between \<open>2\<^sup>-\<^sup>8\<close> and
  \<open>2\<^sup>5\<^sup>5\<close>, inside the normal range of both formats, so no infinity, NaN, subnormal
  or negative zero arises and the exponent is left unbounded.
\<close>

definition ilog2 :: "rat \<Rightarrow> int" where
  \<comment> \<open>\<open>\<lfloor>log\<^sub>2 x\<rfloor>\<close> for \<open>0 < x\<close>, from the bit lengths of numerator and denominator\<close>
  "ilog2 x =
     (case quotient_of x of (a, b) \<Rightarrow>
        let k = bitlen a - bitlen b in if 2 powi k \<le> x then k else k - 1)"

definition rne :: "rat \<Rightarrow> int" where
  \<comment> \<open>the nearest integer, ties to even\<close>
  "rne x =
     (let f = \<lfloor>x\<rfloor>; d = x - of_int f
      in if d < 1 / 2 then f else if 1 / 2 < d then f + 1
         else if even f then f else f + 1)"

definition round_to :: "nat \<Rightarrow> rat \<Rightarrow> rat" where
  \<comment> \<open>the nearest value with a significand of \<open>p\<close> bits\<close>
  "round_to p x =
     (if x = 0 then 0
      else let ulp = 2 powi (ilog2 \<bar>x\<bar> - int p + 1)
           in of_int (rne (x / ulp)) * ulp)"

definition f32_of_i32 :: "i32 \<Rightarrow> rat" where
  "f32_of_i32 i = round_to 24 (of_int (sint i))"

definition f32_div :: "rat \<Rightarrow> rat \<Rightarrow> rat" where
  "f32_div a b = round_to 24 (a / b)"

definition f64_of_i64 :: "i64 \<Rightarrow> rat" where
  "f64_of_i64 i = round_to 53 (of_int (sint i))"

definition f64_div :: "rat \<Rightarrow> rat \<Rightarrow> rat" where
  "f64_div a b = round_to 53 (a / b)"

definition f32_of_f64 :: "rat \<Rightarrow> rat" where
  "f32_of_f64 x = round_to 24 x"

section \<open>The decoder\<close>

subsection \<open>Sample data\<close>

definition calibration :: "u8 list" where
  "calibration =
     [0x36, 0x6C, 0x05, 0x68, 0x18, 0xFC, 0xA1, 0x8D, 0x93, 0xD6, 0xD0, 0x0B, 0xC3, 0x06,
      0x3B, 0x01, 0xF9, 0xFF, 0x8C, 0x3C, 0xF8, 0xC6, 0x70, 0x17, 0x00, 0x00]"

definition measurement :: "u8 list" where
  "measurement = [0x6C, 0x07, 0x00, 0x7E, 0x4C, 0x00, 0x00, 0x00]"

subsection \<open>Data\<close>

record Calibration =
  T1 :: u16
  T2 :: i16
  T3 :: i16
  P1 :: u16
  P2 :: i16
  P3 :: i16
  P4 :: i16
  P5 :: i16
  P6 :: i16
  P7 :: i16
  P8 :: i16
  P9 :: i16
  H1 :: u8
  H2 :: i16
  H3 :: u8
  H4 :: i16
  H5 :: i16

text \<open>The fields are \<^verbatim>\<open>float\<close>, each with the default member initialiser \<^verbatim>\<open>0.\<close>.\<close>

record Measurement =
  pressure :: rat
  temp :: rat
  humidity :: rat

subsection \<open>Primitive decoders\<close>

definition decode20bit :: "u8 list \<Rightarrow> fault + i32" where
  "decode20bit data =
     bindF (rd data 0) (\<lambda>d0. bindF (rd data 1) (\<lambda>d1. bindF (rd data 2) (\<lambda>d2.
       Inr (push_bit 12 (ucast d0 :: u32) OR push_bit 4 (ucast d1 :: u32)
            OR drop_bit 4 (ucast d2 :: u32)))))"

definition decodeU16LE :: "u8 list \<Rightarrow> fault + u16" where
  "decodeU16LE data =
     bindF (rd data 0) (\<lambda>d0. bindF (rd data 1) (\<lambda>d1.
       Inr (ucast ((ucast d0 :: u32) OR push_bit 8 (ucast d1 :: u32)))))"

definition decodeS16LE :: "u8 list \<Rightarrow> fault + i16" where
  "decodeS16LE data = bindF (decodeU16LE data) (\<lambda>u. Inr u)"

subsection \<open>Calibration parser\<close>

text \<open>
  \<^verbatim>\<open>Calibration result;\<close> is not initialised: the first argument is whatever the
  object holds before the assignments. \<^verbatim>\<open>H2\<close> to \<^verbatim>\<open>H5\<close> are never assigned and keep it.
\<close>

definition decodeCalibration :: "Calibration \<Rightarrow> u8 list \<Rightarrow> fault + Calibration" where
  "decodeCalibration uninit cal =
     bindF (decodeU16LE cal) (\<lambda>t1.
     bindF (decodeS16LE (drop 2 cal)) (\<lambda>t2.
     bindF (decodeS16LE (drop 4 cal)) (\<lambda>t3.
     bindF (decodeU16LE (drop 6 cal)) (\<lambda>p1.
     bindF (decodeS16LE (drop 8 cal)) (\<lambda>p2.
     bindF (decodeS16LE (drop 10 cal)) (\<lambda>p3.
     bindF (decodeS16LE (drop 12 cal)) (\<lambda>p4.
     bindF (decodeS16LE (drop 14 cal)) (\<lambda>p5.
     bindF (decodeS16LE (drop 16 cal)) (\<lambda>p6.
     bindF (decodeS16LE (drop 18 cal)) (\<lambda>p7.
     bindF (decodeS16LE (drop 20 cal)) (\<lambda>p8.
     bindF (decodeS16LE (drop 22 cal)) (\<lambda>p9.
     bindF (rd cal 25) (\<lambda>h1.
       Inr (uninit\<lparr>T1 := t1, T2 := t2, T3 := t3, P1 := p1, P2 := p2, P3 := p3, P4 := p4,
                   P5 := p5, P6 := p6, P7 := p7, P8 := p8, P9 := p9, H1 := h1\<rparr>))))))))))))))"

subsection \<open>Compensation engine\<close>

text \<open>
  The two blocks of \<^verbatim>\<open>decode\<close>. The temperature block assigns \<^verbatim>\<open>t_fine\<close> and
  \<^verbatim>\<open>result.temp\<close>; the pressure block reads \<^verbatim>\<open>t_fine\<close> and assigns \<^verbatim>\<open>result.pressure\<close>
  under its guard.
\<close>

definition temperature_block :: "Calibration \<Rightarrow> u8 list \<Rightarrow> Measurement \<Rightarrow> fault + (i32 \<times> Measurement)" where
  "temperature_block dig meas result =
     bindF (decode20bit (drop 3 meas)) (\<lambda>temp_raw.
       let var1 = signed_drop_bit 11
                    ((signed_drop_bit 3 temp_raw - push_bit 1 (ucast (T1 dig) :: i32))
                     * (scast (T2 dig) :: i32));
           var2 = signed_drop_bit 14
                    (signed_drop_bit 12
                       ((signed_drop_bit 4 temp_raw - (ucast (T1 dig) :: i32))
                        * (signed_drop_bit 4 temp_raw - (ucast (T1 dig) :: i32)))
                     * (scast (T3 dig) :: i32));
           t_fine = var1 + var2;
           T = signed_drop_bit 8 (t_fine * 5 + 128)
       in Inr (t_fine, result\<lparr>temp := f32_div (f32_of_i32 T) (f32_of_i32 100)\<rparr>))"

definition pressure_block :: "Calibration \<Rightarrow> u8 list \<Rightarrow> i32 \<Rightarrow> Measurement \<Rightarrow> fault + Measurement" where
  "pressure_block dig meas t_fine result =
     bindF (decode20bit meas) (\<lambda>adc_P.
       let var1 = (scast t_fine :: i64) - 128000;
           var2 = var1 * var1 * (scast (P6 dig) :: i64);
           var2 = var2 + push_bit 17 (var1 * (scast (P5 dig) :: i64));
           var2 = var2 + push_bit 35 (scast (P4 dig) :: i64);
           var1 = signed_drop_bit 8 (var1 * var1 * (scast (P3 dig) :: i64))
                  + push_bit 12 (var1 * (scast (P2 dig) :: i64));
           var1 = signed_drop_bit 33 ((push_bit 47 (1 :: i64) + var1) * (ucast (P1 dig) :: i64))
       in if var1 \<noteq> 0 then
            let p = (scast (1048576 - adc_P) :: i64)
            in bindF (sdiv64 ((push_bit 31 p - var2) * 3125) var1) (\<lambda>p.
                 let var1 = signed_drop_bit 25
                              ((scast (P9 dig) :: i64) * signed_drop_bit 13 p * signed_drop_bit 13 p);
                     var2 = signed_drop_bit 19 ((scast (P8 dig) :: i64) * p);
                     p = signed_drop_bit 8 (p + var1 + var2) + push_bit 4 (scast (P7 dig) :: i64)
                 in Inr (result\<lparr>pressure := f32_of_f64 (f64_div (f64_of_i64 p) 256)\<rparr>))
          else Inr result)"

definition decode :: "Calibration \<Rightarrow> u8 list \<Rightarrow> u8 list \<Rightarrow> fault + Measurement" where
  "decode uninit cal meas =
     (let result = \<lparr>pressure = 0, temp = 0, humidity = 0\<rparr>
      in bindF (decodeCalibration uninit cal) (\<lambda>dig.
         bindF (temperature_block dig meas result) (\<lambda>(t_fine, result).
         pressure_block dig meas t_fine result)))"

subsection \<open>Auxiliary notions for the statements\<close>

text \<open>The 16-bit word that the two decoders assemble from a low and a high byte.\<close>

definition le16 :: "u8 \<Rightarrow> u8 \<Rightarrow> u16" where
  "le16 lo hi = ucast ((ucast lo :: u32) OR push_bit 8 (ucast hi :: u32))"

text \<open>
  Some prior content of the uninitialised \<^verbatim>\<open>Calibration\<close> object, for evaluating the
  decoder on concrete buffers.
\<close>

definition blank :: Calibration where
  "blank = \<lparr>T1 = 0, T2 = 0, T3 = 0, P1 = 0, P2 = 0, P3 = 0, P4 = 0, P5 = 0, P6 = 0, P7 = 0,
             P8 = 0, P9 = 0, H1 = 0, H2 = 0, H3 = 0, H4 = 0, H5 = 0\<rparr>"

text \<open>The coefficients that \<^verbatim>\<open>decodeCalibration\<close> assigns and the two blocks read.\<close>

definition coefficients ::
  "Calibration \<Rightarrow> u16 \<times> i16 \<times> i16 \<times> u16 \<times> i16 \<times> i16 \<times> i16 \<times> i16 \<times> i16 \<times> i16 \<times> i16 \<times> i16" where
  "coefficients c = (T1 c, T2 c, T3 c, P1 c, P2 c, P3 c, P4 c, P5 c, P6 c, P7 c, P8 c, P9 c)"

subsection \<open>The compensation formulas as the specification words them\<close>

text \<open>
  Stage A on mathematical integers: 32-bit signed arithmetic is arithmetic on \<open>int\<close>
  followed by the reduction into \<open>[-2\<^sup>3\<^sup>1, 2\<^sup>3\<^sup>1)\<close>, and the arithmetic right shift by
  \<open>n\<close> is the division by \<open>2\<^sup>n\<close> rounded towards minus infinity.
\<close>

definition wrap32 :: "int \<Rightarrow> int" where
  "wrap32 k = (k + 2147483648) mod 4294967296 - 2147483648"

definition asr :: "int \<Rightarrow> nat \<Rightarrow> int" where
  "asr k n = k div 2 ^ n"

definition stageA_var1 :: "int \<Rightarrow> int \<Rightarrow> int \<Rightarrow> int" where
  "stageA_var1 temp_raw t1 t2 =
     asr (wrap32 (wrap32 (asr temp_raw 3 - wrap32 (t1 * 2)) * t2)) 11"

definition stageA_var2 :: "int \<Rightarrow> int \<Rightarrow> int \<Rightarrow> int" where
  "stageA_var2 temp_raw t1 t3 =
     asr (wrap32 (asr (wrap32 (wrap32 (asr temp_raw 4 - t1) * wrap32 (asr temp_raw 4 - t1))) 12
                  * t3)) 14"

definition stageA_t_fine :: "int \<Rightarrow> int \<Rightarrow> int \<Rightarrow> int \<Rightarrow> int" where
  "stageA_t_fine temp_raw t1 t2 t3 =
     wrap32 (stageA_var1 temp_raw t1 t2 + stageA_var2 temp_raw t1 t3)"

definition stageA_T :: "int \<Rightarrow> int" where
  "stageA_T t_fine = asr (wrap32 (wrap32 (t_fine * 5) + 128)) 8"

text \<open>The 20-bit sample at an offset of a buffer, and Stage A on a measurement block.\<close>

definition raw20 :: "u8 list \<Rightarrow> nat \<Rightarrow> int" where
  "raw20 buf off =
     4096 * uint (buf ! off) + 16 * uint (buf ! (off + 1)) + uint (buf ! (off + 2)) div 16"

definition t_fine_of :: "Calibration \<Rightarrow> u8 list \<Rightarrow> int" where
  "t_fine_of dig meas =
     stageA_t_fine (raw20 meas 3) (uint (T1 dig)) (sint (T2 dig)) (sint (T3 dig))"

definition temperature_of :: "Calibration \<Rightarrow> u8 list \<Rightarrow> rat" where
  "temperature_of dig meas = f32_div (of_int (stageA_T (t_fine_of dig meas))) 100"

text \<open>
  Stage B in 64-bit words: \<open>pressure_var1\<close> is \<^verbatim>\<open>var1\<close> after step 7, the value the
  guard tests, \<open>pressure_var2\<close> is \<^verbatim>\<open>var2\<close> after step 5, and \<open>pressure_p\<close> is the
  fixed-point pressure \<^verbatim>\<open>p\<close> of step 9 before the conversion to floating point.
\<close>

definition pressure_var1 :: "Calibration \<Rightarrow> i32 \<Rightarrow> i64" where
  "pressure_var1 dig t_fine =
     (let var1 = (scast t_fine :: i64) - 128000;
          var1 = signed_drop_bit 8 (var1 * var1 * scast (P3 dig))
                 + push_bit 12 (var1 * scast (P2 dig))
      in signed_drop_bit 33 ((push_bit 47 1 + var1) * ucast (P1 dig)))"

definition pressure_var2 :: "Calibration \<Rightarrow> i32 \<Rightarrow> i64" where
  "pressure_var2 dig t_fine =
     (let var1 = (scast t_fine :: i64) - 128000;
          var2 = var1 * var1 * scast (P6 dig);
          var2 = var2 + push_bit 17 (var1 * scast (P5 dig))
      in var2 + push_bit 35 (scast (P4 dig)))"

definition pressure_p :: "Calibration \<Rightarrow> i32 \<Rightarrow> i32 \<Rightarrow> fault + i64" where
  "pressure_p dig t_fine adc_P =
     (let p = (scast (1048576 - adc_P) :: i64)
      in bindF (sdiv64 ((push_bit 31 p - pressure_var2 dig t_fine) * 3125)
                  (pressure_var1 dig t_fine)) (\<lambda>p.
           let var1 = signed_drop_bit 25
                        (scast (P9 dig) * signed_drop_bit 13 p * signed_drop_bit 13 p);
               var2 = signed_drop_bit 19 (scast (P8 dig) * p)
           in Inr (signed_drop_bit 8 (p + var1 + var2) + push_bit 4 (scast (P7 dig)))))"

text \<open>The coefficients of the sample block, as \<^verbatim>\<open>decodeCalibration\<close> assigns them.\<close>

definition sample_dig :: Calibration where
  "sample_dig = blank\<lparr>T1 := 27702, T2 := 26629, T3 := - 1000, P1 := 36257, P2 := - 10605,
       P3 := 3024, P4 := 1731, P5 := 315, P6 := - 7, P7 := 15500, P8 := - 14600, P9 := 6000\<rparr>"

text \<open>A value that a \<^verbatim>\<open>float\<close> holds: rounding to 24 bits leaves it unchanged.\<close>

definition is_binary32 :: "rat \<Rightarrow> bool" where
  "is_binary32 x \<longleftrightarrow> round_to 24 x = x"

section \<open>Properties\<close>

subsection \<open>Bytes and bits\<close>

lemma or_push_bit_disjoint:
  fixes w x :: int
  assumes "0 \<le> w" "w < 2 ^ n"
  shows "push_bit n x OR w = 2 ^ n * x + w"
proof -
  have "concat_bit n w x = take_bit n w + push_bit n x"
    by (rule concat_bit_eq)
  moreover have "take_bit n w = w"
    using assms by (simp add: take_bit_int_eq_self)
  ultimately show ?thesis
    by (simp add: concat_bit_def push_bit_eq_mult ac_simps)
qed

lemma uint_u8_bound: "uint (a :: u8) < 256"
  using uint_bounded [of a] by simp

lemma uint_20bit:
  "uint (push_bit 12 (ucast (a :: u8) :: u32) OR push_bit 4 (ucast (b :: u8) :: u32)
         OR drop_bit 4 (ucast (c :: u8) :: u32))
   = 4096 * uint a + 16 * uint b + uint c div 16"
proof -
  have a: "uint a < 256" "0 \<le> uint a" and b: "uint b < 256" "0 \<le> uint b"
    and c: "uint c < 256" "0 \<le> uint c"
    by (simp_all add: uint_u8_bound)
  have ta: "take_bit 32 (uint a) = uint a" "take_bit 32 (uint b) = uint b"
    "take_bit 32 (uint c) = uint c"
    using a b c by (simp_all add: take_bit_int_eq_self)
  have pa: "take_bit 32 (push_bit 12 (uint a)) = push_bit 12 (uint a)"
    using a by (simp add: take_bit_int_eq_self push_bit_eq_mult)
  have pb: "take_bit 32 (push_bit 4 (uint b)) = push_bit 4 (uint b)"
    using b by (simp add: take_bit_int_eq_self push_bit_eq_mult)
  have d: "0 \<le> uint c div 16" "uint c div 16 < 16"
    using c by (simp_all add: pos_imp_zdiv_nonneg_iff)
  have lo: "push_bit 4 (uint b) OR drop_bit 4 (uint c) = 2 ^ 4 * uint b + uint c div 16"
    using d by (subst or_push_bit_disjoint) (simp_all add: drop_bit_eq_div)
  have "uint (push_bit 12 (ucast a :: u32) OR push_bit 4 (ucast b :: u32)
              OR drop_bit 4 (ucast c :: u32))
      = push_bit 12 (uint a) OR (push_bit 4 (uint b) OR drop_bit 4 (uint c))"
    by (simp add: uint_or unsigned_push_bit_eq unsigned_drop_bit_eq unsigned_ucast_eq
        ta pa pb or.assoc)
  also have "\<dots> = 2 ^ 12 * uint a + (2 ^ 4 * uint b + uint c div 16)"
    unfolding lo using b d by (subst or_push_bit_disjoint) simp_all
  finally show ?thesis by simp
qed

lemma range_20bit:
  "0 \<le> 4096 * uint a + 16 * uint b + uint c div 16
   \<and> 4096 * uint a + 16 * uint b + uint c div 16 \<le> 1048575" for a b c :: u8
proof -
  have "uint c div 16 < 16" "0 \<le> uint c div 16"
    using uint_u8_bound [of c] by (simp_all add: pos_imp_zdiv_nonneg_iff)
  then show ?thesis
    using uint_u8_bound [of a] uint_u8_bound [of b] uint_ge_0 [of a] uint_ge_0 [of b]
    by linarith
qed

lemma sint_20bit:
  "sint (push_bit 12 (ucast (a :: u8) :: u32) OR push_bit 4 (ucast (b :: u8) :: u32)
         OR drop_bit 4 (ucast (c :: u8) :: u32))
   = 4096 * uint a + 16 * uint b + uint c div 16"
proof -
  let ?v = "4096 * uint a + 16 * uint b + uint c div 16"
  have "- 2147483648 \<le> ?v" "?v < 2147483648"
    using range_20bit [of a b c] by linarith+
  then have "- (2 ^ 31) \<le> ?v" "?v < 2 ^ 31"
    by simp_all
  then show ?thesis
    by (simp add: sint_uint uint_20bit signed_take_bit_int_eq_self)
qed

lemma uint_le16: "uint (le16 lo hi) = uint lo + 256 * uint hi"
proof -
  have b: "0 \<le> uint lo" "uint lo < 2 ^ 8" "0 \<le> uint hi" "uint hi < 256"
    using uint_u8_bound [of lo] uint_u8_bound [of hi] by simp_all
  have "uint lo + 256 * uint hi < 65536"
    using b by simp
  moreover have "0 \<le> uint lo + 256 * uint hi"
    using b by simp
  ultimately have t: "take_bit 16 (uint lo + 256 * uint hi) = uint lo + 256 * uint hi"
    by (simp add: take_bit_int_eq_self)
  have "push_bit 8 (uint hi) OR uint lo = 2 ^ 8 * uint hi + uint lo"
    using b(1,2) by (rule or_push_bit_disjoint)
  then have "uint lo OR push_bit 8 (uint hi) = uint lo + 256 * uint hi"
    by (simp add: or.commute)
  moreover have "take_bit 32 (push_bit 8 (uint hi)) = push_bit 8 (uint hi)"
    using b by (simp add: take_bit_int_eq_self push_bit_eq_mult)
  moreover have "take_bit 32 (uint lo) = uint lo" "take_bit 32 (uint hi) = uint hi"
    using b by (simp_all add: take_bit_int_eq_self)
  ultimately show ?thesis
    by (simp add: le16_def unsigned_ucast_eq uint_or unsigned_push_bit_eq t)
qed

lemma le16_of_int:
  "le16 (word_of_int v) (word_of_int (v div 256)) = word_of_int v"
proof -
  have "v div 256 = drop_bit 8 v"
    by (simp add: drop_bit_eq_div)
  then show ?thesis
    by (auto intro!: bit_word_eqI simp add: le16_def bit_simps)
qed

subsection \<open>Rounding to a significand of \<open>p\<close> bits\<close>

lemma bitlen_powi_bounds:
  assumes "0 < a"
  shows "(2::rat) powi (bitlen a - 1) \<le> of_int a" "of_int a < (2::rat) powi bitlen a"
proof -
  from assms have ge1: "1 \<le> bitlen a"
    using bitlen_eq_zero_iff [of a] bitlen_nonneg [of a] by linarith
  have b: "2 ^ nat (bitlen a - 1) \<le> a" "a < 2 ^ nat (bitlen a)"
    using bitlen_bounds [OF assms] by simp_all
  have "(2::rat) powi (bitlen a - 1) = of_int (2 ^ nat (bitlen a - 1))"
    using ge1 by (simp add: power_int_def)
  also have "\<dots> \<le> of_int a"
    using b(1) by (simp only: of_int_le_iff)
  finally show "(2::rat) powi (bitlen a - 1) \<le> of_int a" .
  have "(of_int a :: rat) < of_int (2 ^ nat (bitlen a))"
    using b(2) by (simp only: of_int_less_iff)
  also have "\<dots> = (2::rat) powi bitlen a"
    using ge1 by (simp add: power_int_def)
  finally show "of_int a < (2::rat) powi bitlen a" .
qed

lemma ilog2_bounds:
  assumes "0 < x"
  shows "2 powi ilog2 x \<le> x" "x < 2 powi (ilog2 x + 1)"
proof -
  obtain a b where q: "quotient_of x = (a, b)"
    by (cases "quotient_of x")
  then have b: "0 < b" and x: "x = of_int a / of_int b"
    by (simp_all add: quotient_of_denom_pos quotient_of_div)
  from assms x b have a: "0 < a"
    by (simp add: zero_less_divide_iff)
  define k where "k = bitlen a - bitlen b"
  have E: "ilog2 x = (if 2 powi k \<le> x then k else k - 1)"
    by (simp add: ilog2_def q k_def Let_def)
  have pb: "0 < (of_int b :: rat)"
    using b by simp
  have "x < 2 powi bitlen a / 2 powi (bitlen b - 1)"
  proof -
    have "x < 2 powi bitlen a / of_int b"
      unfolding x using bitlen_powi_bounds(2) [OF a] pb by (simp add: divide_strict_right_mono)
    also have "\<dots> \<le> 2 powi bitlen a / 2 powi (bitlen b - 1)"
      using bitlen_powi_bounds(1) [OF b] pb by (intro divide_left_mono) simp_all
    finally show ?thesis .
  qed
  moreover have "(2::rat) powi bitlen a / 2 powi (bitlen b - 1) = 2 powi (bitlen a - (bitlen b - 1))"
    by (subst power_int_diff) simp_all
  moreover have "bitlen a - (bitlen b - 1) = k + 1"
    by (simp add: k_def)
  ultimately have up: "x < 2 powi (k + 1)"
    by simp
  have "2 powi (bitlen a - 1) / 2 powi bitlen b < x"
  proof -
    have "2 powi (bitlen a - 1) / 2 powi bitlen b < 2 powi (bitlen a - 1) / (of_int b :: rat)"
      using bitlen_powi_bounds(2) [OF b] pb by (intro divide_strict_left_mono) simp_all
    also have "\<dots> \<le> x"
      unfolding x using bitlen_powi_bounds(1) [OF a] pb by (simp add: divide_right_mono)
    finally show ?thesis .
  qed
  moreover have "(2::rat) powi (bitlen a - 1) / 2 powi bitlen b = 2 powi (bitlen a - 1 - bitlen b)"
    by (subst power_int_diff) simp_all
  moreover have "bitlen a - 1 - bitlen b = k - 1"
    by (simp add: k_def)
  ultimately have lo: "2 powi (k - 1) < x"
    by simp
  show "2 powi ilog2 x \<le> x"
    using lo by (simp add: E)
  show "x < 2 powi (ilog2 x + 1)"
    using up by (auto simp add: E not_le)
qed

lemma powi2_less_cancel: "(2::rat) powi a < 2 powi b \<Longrightarrow> a < b"
proof (rule ccontr)
  assume lt: "(2::rat) powi a < 2 powi b" and "\<not> a < b"
  then have "b \<le> a" by simp
  then have "(2::rat) powi b \<le> 2 powi a"
    by (rule power_int_increasing) simp
  with lt show False by simp
qed

lemma rne_of_int: "rne (of_int n) = n"
  by (simp add: rne_def)

lemma rne_bounds:
  assumes "of_int a \<le> x" "x \<le> of_int b"
  shows "a \<le> rne x" "rne x \<le> b"
proof -
  have fl: "a \<le> \<lfloor>x\<rfloor>" "\<lfloor>x\<rfloor> \<le> b"
    using assms by (simp_all add: le_floor_iff floor_le_iff)
  have cases: "rne x = \<lfloor>x\<rfloor> \<or> (rne x = \<lfloor>x\<rfloor> + 1 \<and> of_int \<lfloor>x\<rfloor> < x)"
    by (auto simp add: rne_def Let_def)
  show "a \<le> rne x"
    using fl(1) cases by auto
  show "rne x \<le> b"
  proof (rule disjE [OF cases])
    assume "rne x = \<lfloor>x\<rfloor>"
    then show ?thesis using fl(2) by simp
  next
    assume h: "rne x = \<lfloor>x\<rfloor> + 1 \<and> of_int \<lfloor>x\<rfloor> < x"
    then have "of_int \<lfloor>x\<rfloor> < (of_int b :: rat)"
      using assms(2) by linarith
    then have "\<lfloor>x\<rfloor> < b"
      by simp
    then show ?thesis using h by simp
  qed
qed

lemma round_to_exact:
  assumes "x = of_int m * 2 powi e" "\<bar>m\<bar> < 2 ^ p"
  shows "round_to p x = x"
proof (cases "m = 0")
  case True
  with assms show ?thesis by (simp add: round_to_def)
next
  case False
  define E where "E = ilog2 \<bar>x\<bar>"
  define u :: rat where "u = 2 powi (E - int p + 1)"
  have ax: "\<bar>x\<bar> = of_int \<bar>m\<bar> * 2 powi e"
    by (simp add: assms(1) abs_mult power_int_abs)
  have xpos: "0 < \<bar>x\<bar>" and x0: "x \<noteq> 0"
    using False by (simp_all add: assms(1))
  have "2 powi E \<le> \<bar>x\<bar>"
    unfolding E_def using xpos by (rule ilog2_bounds)
  also have "\<bar>x\<bar> < 2 ^ p * 2 powi e"
  proof -
    have "(of_int \<bar>m\<bar> :: rat) < of_int (2 ^ p)"
      using assms(2) by (simp only: of_int_less_iff)
    then show ?thesis
      unfolding ax by (intro mult_strict_right_mono) simp_all
  qed
  also have "(2::rat) ^ p * 2 powi e = 2 powi (int p + e)"
    by (simp add: power_int_add)
  finally have "E < int p + e"
    by (rule powi2_less_cancel)
  define d where "d = nat (e - (E - int p + 1))"
  have d: "e = (E - int p + 1) + int d"
    using \<open>E < int p + e\<close> by (simp add: d_def)
  have "x / u = of_int m * (2 powi e / 2 powi (E - int p + 1))"
    by (simp add: assms(1) u_def)
  also have "(2::rat) powi e / 2 powi (E - int p + 1) = 2 powi (e - (E - int p + 1))"
    by (subst power_int_diff) simp_all
  also have "e - (E - int p + 1) = int d"
    using d by simp
  finally have "x / u = of_int (m * 2 ^ d)"
    by simp
  then have "rne (x / u) = m * 2 ^ d"
    by (simp only: rne_of_int)
  then have "of_int (rne (x / u)) * u = x / u * u"
    using \<open>x / u = of_int (m * 2 ^ d)\<close> by simp
  also have "\<dots> = x"
    by (simp add: u_def)
  finally show ?thesis
    using x0 by (simp add: round_to_def E_def u_def Let_def)
qed

lemma round_to_of_int:
  "\<bar>n\<bar> < 2 ^ p \<Longrightarrow> round_to p (of_int n) = of_int n"
  by (rule round_to_exact [where m = n and e = 0]) simp_all

lemma round_to_repr:
  assumes "0 < p"
  shows "\<exists>m e. round_to p x = of_int m * 2 powi e \<and> \<bar>m\<bar> < 2 ^ p"
proof (cases "x = 0")
  case True
  have "round_to p x = of_int 0 * 2 powi 0 \<and> \<bar>0::int\<bar> < 2 ^ p"
    using True by (simp add: round_to_def)
  then show ?thesis by blast
next
  case False
  define E where "E = ilog2 \<bar>x\<bar>"
  define u :: rat where "u = 2 powi (E - int p + 1)"
  define M where "M = rne (x / u)"
  have r: "round_to p x = of_int M * u"
    using False by (simp add: round_to_def E_def u_def M_def Let_def)
  have upos: "0 < u"
    by (simp add: u_def)
  have xpos: "0 < \<bar>x\<bar>"
    using False by simp
  have "\<bar>x\<bar> < 2 powi (E + 1)"
    unfolding E_def using xpos by (rule ilog2_bounds)
  also have "(2::rat) powi (E + 1) = 2 powi (int p + (E - int p + 1))"
    by simp
  also have "\<dots> = 2 ^ p * u"
    unfolding u_def by (subst power_int_add) simp_all
  finally have "\<bar>x\<bar> / u < 2 ^ p"
    using upos by (simp add: pos_divide_less_eq)
  then have ab: "\<bar>x / u\<bar> < 2 ^ p"
    using upos by simp
  from ab have c: "x / u < 2 ^ p \<and> - (x / u) < 2 ^ p"
    by (simp only: abs_less_iff)
  have "- (2 ^ p) \<le> x / u" "x / u \<le> 2 ^ p"
    using c by linarith+
  then have "of_int (- (2 ^ p)) \<le> x / u" "x / u \<le> of_int (2 ^ p)"
    by simp_all
  then have Mb: "- (2 ^ p) \<le> M" "M \<le> 2 ^ p"
    unfolding M_def by (rule rne_bounds)+
  show ?thesis
  proof (cases "\<bar>M\<bar> < 2 ^ p")
    case True
    with r u_def show ?thesis by blast
  next
    case False
    with Mb have M: "M = 2 ^ p \<or> M = - (2 ^ p)"
      by linarith
    obtain q where p: "p = Suc q"
      using assms by (cases p) simp_all
    define m :: int where "m = (if M = 2 ^ p then 2 ^ q else - (2 ^ q))"
    have Mm: "M = m * 2"
      using M by (auto simp add: m_def p)
    have "\<bar>m\<bar> < 2 ^ p"
      by (simp add: m_def p)
    moreover have "round_to p x = of_int m * 2 powi (E - int p + 1 + 1)"
      unfolding r Mm u_def by (subst power_int_add) simp_all
    ultimately show ?thesis by blast
  qed
qed

lemma round_to_idem: "0 < p \<Longrightarrow> round_to p (round_to p x) = round_to p x"
  using round_to_repr [of p x] round_to_exact by blast

text \<open>
  The operands of the two quotients lie in the normal range of binary32 and binary64,
  so the unbounded exponent of \<open>round_to\<close> loses nothing.
\<close>

lemma temp_operand_range:
  fixes i :: i32
  assumes "sint i \<noteq> 0"
  shows "1 / 128 \<le> \<bar>rat_of_int (sint i) / 100\<bar>" "\<bar>rat_of_int (sint i) / 100\<bar> < 2 ^ 25"
proof -
  from assms have "1 \<le> \<bar>sint i\<bar>"
    by linarith
  then have lo: "(1 :: rat) \<le> of_int \<bar>sint i\<bar>"
    by (simp only: of_int_1 [symmetric, where ?'a = rat] of_int_le_iff)
  have "\<bar>sint i\<bar> \<le> 2147483648"
    using sint_ge [of i] sint_lt [of i] by simp
  then have hi: "(of_int \<bar>sint i\<bar> :: rat) \<le> of_int 2147483648"
    by (simp only: of_int_le_iff)
  show "1 / 128 \<le> \<bar>rat_of_int (sint i) / 100\<bar>"
    using lo by simp
  show "\<bar>rat_of_int (sint i) / 100\<bar> < 2 ^ 25"
    using hi by simp
qed

lemma pressure_operand_range:
  fixes p :: i64
  assumes "sint p \<noteq> 0"
  shows "1 / 256 \<le> \<bar>rat_of_int (sint p) / 256\<bar>" "\<bar>rat_of_int (sint p) / 256\<bar> \<le> 2 ^ 55"
proof -
  from assms have "1 \<le> \<bar>sint p\<bar>"
    by linarith
  then have lo: "(1 :: rat) \<le> of_int \<bar>sint p\<bar>"
    by (simp only: of_int_1 [symmetric, where ?'a = rat] of_int_le_iff)
  have "\<bar>sint p\<bar> \<le> 9223372036854775808"
    using sint_ge [of p] sint_lt [of p] by simp
  then have hi: "(of_int \<bar>sint p\<bar> :: rat) \<le> of_int 9223372036854775808"
    by (simp only: of_int_le_iff)
  show "1 / 256 \<le> \<bar>rat_of_int (sint p) / 256\<bar>"
    using lo by simp
  show "\<bar>rat_of_int (sint p) / 256\<bar> \<le> 2 ^ 55"
    using hi by simp
qed

subsection \<open>Stage A: words against integers\<close>

lemma wrap32_eq: "wrap32 k = signed_take_bit 31 k"
  by (simp add: wrap32_def signed_take_bit_eq_take_bit_shift take_bit_eq_mod)

lemma sint_add32: "sint (a + b :: i32) = wrap32 (sint a + sint b)"
  by (simp add: wrap32_eq sint_word_ariths)

lemma sint_sub32: "sint (a - b :: i32) = wrap32 (sint a - sint b)"
  by (simp add: wrap32_eq sint_word_ariths)

lemma sint_mul32: "sint (a * b :: i32) = wrap32 (sint a * sint b)"
  by (simp add: wrap32_eq sint_word_ariths)

lemma sint_asr32: "sint (signed_drop_bit n (a :: i32)) = asr (sint a) n"
  by (simp add: asr_def sint_signed_drop_bit_eq drop_bit_eq_div)

lemma sint_ucast_16_32: "sint (ucast (a :: u16) :: i32) = uint a"
proof -
  have "uint a < 65536"
    using uint_bounded [of a] by simp
  then have "- 2147483648 \<le> uint a" "uint a < 2147483648"
    using uint_ge_0 [of a] by linarith+
  then have "- (2 ^ 31) \<le> uint a" "uint a < 2 ^ 31"
    by simp_all
  then show ?thesis
    by (simp add: signed_ucast_eq signed_take_bit_int_eq_self)
qed

lemma sint_scast_16_32: "sint (scast (a :: i16) :: i32) = sint a"
  by (rule sint_up_scast) (simp add: is_up)

lemma sint_shl1_32: "sint (push_bit 1 (a :: i32)) = wrap32 (sint a * 2)"
proof -
  have "push_bit 1 a = a * 2"
    by (simp add: push_bit_eq_mult)
  then show ?thesis
    by (simp add: wrap32_eq sint_word_ariths)
qed

lemma sint_numerals_32: "sint (5 :: i32) = 5" "sint (128 :: i32) = 128" "sint (100 :: i32) = 100"
  by simp_all

lemma stageA_refines:
  fixes temp_raw :: i32 and dig :: Calibration
  defines "var1 \<equiv> signed_drop_bit 11
                    ((signed_drop_bit 3 temp_raw - push_bit 1 (ucast (T1 dig) :: i32))
                     * (scast (T2 dig) :: i32))"
    and "var2 \<equiv> signed_drop_bit 14
                    (signed_drop_bit 12
                       ((signed_drop_bit 4 temp_raw - (ucast (T1 dig) :: i32))
                        * (signed_drop_bit 4 temp_raw - (ucast (T1 dig) :: i32)))
                     * (scast (T3 dig) :: i32))"
  shows "sint var1 = stageA_var1 (sint temp_raw) (uint (T1 dig)) (sint (T2 dig))"
    and "sint var2 = stageA_var2 (sint temp_raw) (uint (T1 dig)) (sint (T3 dig))"
    and "sint (var1 + var2)
         = stageA_t_fine (sint temp_raw) (uint (T1 dig)) (sint (T2 dig)) (sint (T3 dig))"
    and "sint (signed_drop_bit 8 ((var1 + var2) * 5 + 128)) = stageA_T (sint (var1 + var2))"
proof -
  show 1: "sint var1 = stageA_var1 (sint temp_raw) (uint (T1 dig)) (sint (T2 dig))"
    unfolding var1_def stageA_var1_def
    by (simp only: sint_asr32 sint_mul32 sint_sub32 sint_shl1_32 sint_ucast_16_32 sint_scast_16_32)
  show 2: "sint var2 = stageA_var2 (sint temp_raw) (uint (T1 dig)) (sint (T3 dig))"
    unfolding var2_def stageA_var2_def
    by (simp only: sint_asr32 sint_mul32 sint_sub32 sint_ucast_16_32 sint_scast_16_32)
  show "sint (var1 + var2)
         = stageA_t_fine (sint temp_raw) (uint (T1 dig)) (sint (T2 dig)) (sint (T3 dig))"
    by (simp only: sint_add32 1 2 stageA_t_fine_def)
  show "sint (signed_drop_bit 8 ((var1 + var2) * 5 + 128)) = stageA_T (sint (var1 + var2))"
    unfolding stageA_T_def
    by (simp only: sint_asr32 sint_add32 sint_mul32 sint_numerals_32)
qed

subsection \<open>The decoders on buffers that are long enough\<close>

lemma decode20bit_3:
  "3 \<le> length data \<Longrightarrow>
   decode20bit data =
     Inr (push_bit 12 (ucast (data ! 0) :: u32) OR push_bit 4 (ucast (data ! 1) :: u32)
          OR drop_bit 4 (ucast (data ! 2) :: u32))"
  by (auto simp add: decode20bit_def rd_def bindF_def)

lemma decodeU16LE_2:
  "2 \<le> length data \<Longrightarrow> decodeU16LE data = Inr (le16 (data ! 0) (data ! 1))"
  by (auto simp add: decodeU16LE_def rd_def bindF_def le16_def)

lemma decodeS16LE_2:
  "2 \<le> length data \<Longrightarrow> decodeS16LE data = Inr (le16 (data ! 0) (data ! 1))"
  by (simp add: decodeS16LE_def decodeU16LE_2 bindF_def)

lemma decodeCalibration_26:
  assumes "26 \<le> length cal"
  shows "decodeCalibration g cal =
     Inr (g\<lparr>T1 := le16 (cal ! 0) (cal ! 1), T2 := le16 (cal ! 2) (cal ! 3),
            T3 := le16 (cal ! 4) (cal ! 5), P1 := le16 (cal ! 6) (cal ! 7),
            P2 := le16 (cal ! 8) (cal ! 9), P3 := le16 (cal ! 10) (cal ! 11),
            P4 := le16 (cal ! 12) (cal ! 13), P5 := le16 (cal ! 14) (cal ! 15),
            P6 := le16 (cal ! 16) (cal ! 17), P7 := le16 (cal ! 18) (cal ! 19),
            P8 := le16 (cal ! 20) (cal ! 21), P9 := le16 (cal ! 22) (cal ! 23),
            H1 := cal ! 25\<rparr>)"
  using assms
  by (simp add: decodeCalibration_def decodeU16LE_2 decodeS16LE_2 bindF_def rd_def)

lemma raw20_0: "raw20 buf 0 = 4096 * uint (buf ! 0) + 16 * uint (buf ! 1) + uint (buf ! 2) div 16"
  unfolding raw20_def by (simp only: add_0)

lemma raw20_3: "raw20 buf 3 = 4096 * uint (buf ! 3) + 16 * uint (buf ! 4) + uint (buf ! 5) div 16"
  unfolding raw20_def by simp

lemma pressure_block_3:
  assumes "3 \<le> length meas"
  shows "\<exists>adc_P. decode20bit meas = Inr adc_P \<and> sint adc_P = raw20 meas 0 \<and>
     pressure_block dig meas t_fine result =
       (if pressure_var1 dig t_fine \<noteq> 0
        then bindF (pressure_p dig t_fine adc_P) (\<lambda>p.
               Inr (result\<lparr>pressure := f32_of_f64 (f64_div (f64_of_i64 p) 256)\<rparr>))
        else Inr result)"
  using assms
  by (simp add: decode20bit_3 sint_20bit raw20_0 pressure_block_def pressure_var1_def pressure_var2_def
      pressure_p_def bindF_def Let_def split: sum.split)

subsection \<open>Calibration parser\<close>

text \<open>
  C1. On the 26-byte sample block \<^verbatim>\<open>calibration\<close>, \<^verbatim>\<open>decodeCalibration\<close> yields
  T1 = 27702, T2 = 26629, T3 = -1000, P1 = 36257, P2 = -10605, P3 = 3024, P4 = 1731,
  P5 = 315, P6 = -7, P7 = 15500, P8 = -14600 and P9 = 6000 (T1 and P1 read as unsigned,
  the others as two's complement). On every block of at least 26 bytes each 16-bit field
  is the little-endian pair at its fixed offset (T1 at 0, T2 at 2, T3 at 4, P1 at 6, P2
  at 8, P3 at 10, P4 at 12, P5 at 14, P6 at 16, P7 at 18, P8 at 20, P9 at 22) and H1 is
  the byte at offset 25.
\<close>

theorem decodeCalibration_sample:
  "(\<exists>c. decodeCalibration g calibration = Inr c
       \<and> uint (T1 c) = 27702 \<and> sint (T2 c) = 26629 \<and> sint (T3 c) = - 1000
       \<and> uint (P1 c) = 36257 \<and> sint (P2 c) = - 10605 \<and> sint (P3 c) = 3024
       \<and> sint (P4 c) = 1731 \<and> sint (P5 c) = 315 \<and> sint (P6 c) = - 7
       \<and> sint (P7 c) = 15500 \<and> sint (P8 c) = - 14600 \<and> sint (P9 c) = 6000)
   \<and> (26 \<le> length cal \<longrightarrow>
       (\<exists>c. decodeCalibration g cal = Inr c
          \<and> uint (T1 c) = uint (cal ! 0) + 256 * uint (cal ! 1)
          \<and> uint (T2 c) = uint (cal ! 2) + 256 * uint (cal ! 3)
          \<and> uint (T3 c) = uint (cal ! 4) + 256 * uint (cal ! 5)
          \<and> uint (P1 c) = uint (cal ! 6) + 256 * uint (cal ! 7)
          \<and> uint (P2 c) = uint (cal ! 8) + 256 * uint (cal ! 9)
          \<and> uint (P3 c) = uint (cal ! 10) + 256 * uint (cal ! 11)
          \<and> uint (P4 c) = uint (cal ! 12) + 256 * uint (cal ! 13)
          \<and> uint (P5 c) = uint (cal ! 14) + 256 * uint (cal ! 15)
          \<and> uint (P6 c) = uint (cal ! 16) + 256 * uint (cal ! 17)
          \<and> uint (P7 c) = uint (cal ! 18) + 256 * uint (cal ! 19)
          \<and> uint (P8 c) = uint (cal ! 20) + 256 * uint (cal ! 21)
          \<and> uint (P9 c) = uint (cal ! 22) + 256 * uint (cal ! 23)
          \<and> H1 c = cal ! 25))"
proof (rule conjI)
  have len: "26 \<le> length calibration"
    by (simp add: calibration_def)
  show "\<exists>c. decodeCalibration g calibration = Inr c
       \<and> uint (T1 c) = 27702 \<and> sint (T2 c) = 26629 \<and> sint (T3 c) = - 1000
       \<and> uint (P1 c) = 36257 \<and> sint (P2 c) = - 10605 \<and> sint (P3 c) = 3024
       \<and> sint (P4 c) = 1731 \<and> sint (P5 c) = 315 \<and> sint (P6 c) = - 7
       \<and> sint (P7 c) = 15500 \<and> sint (P8 c) = - 14600 \<and> sint (P9 c) = 6000"
    unfolding decodeCalibration_26 [OF len]
    by (simp add: calibration_def le16_def)
next
  show "26 \<le> length cal \<longrightarrow>
       (\<exists>c. decodeCalibration g cal = Inr c
          \<and> uint (T1 c) = uint (cal ! 0) + 256 * uint (cal ! 1)
          \<and> uint (T2 c) = uint (cal ! 2) + 256 * uint (cal ! 3)
          \<and> uint (T3 c) = uint (cal ! 4) + 256 * uint (cal ! 5)
          \<and> uint (P1 c) = uint (cal ! 6) + 256 * uint (cal ! 7)
          \<and> uint (P2 c) = uint (cal ! 8) + 256 * uint (cal ! 9)
          \<and> uint (P3 c) = uint (cal ! 10) + 256 * uint (cal ! 11)
          \<and> uint (P4 c) = uint (cal ! 12) + 256 * uint (cal ! 13)
          \<and> uint (P5 c) = uint (cal ! 14) + 256 * uint (cal ! 15)
          \<and> uint (P6 c) = uint (cal ! 16) + 256 * uint (cal ! 17)
          \<and> uint (P7 c) = uint (cal ! 18) + 256 * uint (cal ! 19)
          \<and> uint (P8 c) = uint (cal ! 20) + 256 * uint (cal ! 21)
          \<and> uint (P9 c) = uint (cal ! 22) + 256 * uint (cal ! 23)
          \<and> H1 c = cal ! 25)"
    by (simp add: decodeCalibration_26 uint_le16)
qed

theorem decodeCalibration_sample_witness:
  "26 \<le> length calibration
   \<and> (\<exists>c. decodeCalibration blank calibration = Inr c
          \<and> uint (P8 c) = 0xF8 + 256 * 0xC6 \<and> sint (P8 c) = - 14600 \<and> H1 c = 0)"
  using decodeCalibration_sample [of blank calibration] by (auto simp add: calibration_def)

subsection \<open>Primitive decoders\<close>

text \<open>
  C5. For every integer \<open>v\<close> from -32768 to 32767, \<^verbatim>\<open>decodeS16LE\<close> applied to the two
  little-endian bytes of the two's-complement representation of \<open>v\<close> (the low byte
  \<open>v mod 256\<close>, then the high byte \<open>(v div 256) mod 256\<close>) returns \<open>v\<close>; the bytes
  0x93, 0xD6 decode to -10605.
\<close>

theorem decodeS16LE_roundtrip:
  "(- 32768 \<le> v \<and> v \<le> 32767 \<longrightarrow>
      map_sum id sint (decodeS16LE [word_of_int v, word_of_int (v div 256)]) = Inr v)
   \<and> map_sum id sint (decodeS16LE [0x93, 0xD6]) = Inr (- 10605)"
proof -
  have "sint (word_of_int v :: i16) = v" if "- 32768 \<le> v" "v \<le> 32767"
    using that by (simp add: signed_of_int signed_take_bit_int_eq_self)
  then have "- 32768 \<le> v \<and> v \<le> 32767 \<longrightarrow>
      map_sum id sint (decodeS16LE [word_of_int v, word_of_int (v div 256)]) = Inr v"
    by (simp add: decodeS16LE_2 le16_of_int)
  moreover have "map_sum id sint (decodeS16LE [0x93, 0xD6]) = Inr (- 10605)"
    by (simp add: decodeS16LE_2 le16_def)
  ultimately show ?thesis by blast
qed

theorem decodeS16LE_roundtrip_witness:
  "- 32768 \<le> (- 1000 :: int) \<and> (- 1000 :: int) \<le> 32767
   \<and> map_sum id sint (decodeS16LE [word_of_int (- 1000), word_of_int (- 1000 div 256)])
       = Inr (- 1000)"
  using decodeS16LE_roundtrip [of "- 1000"] by simp

text \<open>
  C6. On every buffer of at least three bytes \<^verbatim>\<open>decode20bit\<close> returns
  \<^verbatim>\<open>(data[0] << 12) | (data[1] << 4) | (data[2] >> 4)\<close>; read as a signed 32-bit
  integer this is \<open>4096 * data[0] + 16 * data[1] + data[2] div 16\<close>, a value from 0 to
  1048575. The bytes 0x7E, 0x4C, 0x00 (the sample measurement from offset 3) decode to
  517312 and the bytes 0x6C, 0x07, 0x00 (the sample measurement from offset 0) to 442480.
\<close>

theorem decode20bit_value:
  "(3 \<le> length data \<longrightarrow>
      (\<exists>r. decode20bit data = Inr r
         \<and> r = push_bit 12 (ucast (data ! 0)) OR push_bit 4 (ucast (data ! 1))
               OR drop_bit 4 (ucast (data ! 2))
         \<and> sint r = 4096 * uint (data ! 0) + 16 * uint (data ! 1) + uint (data ! 2) div 16
         \<and> 0 \<le> sint r \<and> sint r \<le> 1048575))
   \<and> map_sum id sint (decode20bit [0x7E, 0x4C, 0x00]) = Inr 517312
   \<and> map_sum id sint (decode20bit [0x6C, 0x07, 0x00]) = Inr 442480
   \<and> map_sum id sint (decode20bit (drop 3 measurement)) = Inr 517312
   \<and> map_sum id sint (decode20bit measurement) = Inr 442480"
proof -
  have "3 \<le> length data \<longrightarrow>
      (\<exists>r. decode20bit data = Inr r
         \<and> r = push_bit 12 (ucast (data ! 0)) OR push_bit 4 (ucast (data ! 1))
               OR drop_bit 4 (ucast (data ! 2))
         \<and> sint r = 4096 * uint (data ! 0) + 16 * uint (data ! 1) + uint (data ! 2) div 16
         \<and> 0 \<le> sint r \<and> sint r \<le> 1048575)"
    using range_20bit [of "data ! 0" "data ! 1" "data ! 2"]
    by (simp add: decode20bit_3 sint_20bit)
  moreover have "map_sum id sint (decode20bit [0x7E, 0x4C, 0x00]) = Inr 517312"
    "map_sum id sint (decode20bit [0x6C, 0x07, 0x00]) = Inr 442480"
    "map_sum id sint (decode20bit (drop 3 measurement)) = Inr 517312"
    "map_sum id sint (decode20bit measurement) = Inr 442480"
    by (simp_all add: decode20bit_def rd_def bindF_def measurement_def)
  ultimately show ?thesis by blast
qed

theorem decode20bit_value_witness:
  "3 \<le> length [0xFF, 0xFF, 0xFF :: u8]
   \<and> map_sum id sint (decode20bit [0xFF, 0xFF, 0xFF]) = Inr 1048575"
  using decode20bit_value [of "[0xFF, 0xFF, 0xFF]"] by auto

subsection \<open>Buffers that are too short\<close>

lemma bindF_Inr_iff: "bindF m f = Inr y \<longleftrightarrow> (\<exists>x. m = Inr x \<and> f x = Inr y)"
  by (cases m) (simp_all add: bindF_def)

lemma bindF_fault:
  assumes "bindF m f = Inl e" "\<And>e. m = Inl e \<Longrightarrow> P e" "\<And>x e. f x = Inl e \<Longrightarrow> P e"
  shows "P e"
  using assms by (cases m) (simp_all add: bindF_def)

lemma rd_fault: "rd data i = Inl e \<Longrightarrow> e = OutOfBoundsRead"
  by (simp add: rd_def split: if_splits)

lemma decodeU16LE_fault: "decodeU16LE data = Inl e \<Longrightarrow> e = OutOfBoundsRead"
  unfolding decodeU16LE_def
  by (erule bindF_fault, erule rd_fault, erule bindF_fault, erule rd_fault, simp)

lemma decodeS16LE_fault: "decodeS16LE data = Inl e \<Longrightarrow> e = OutOfBoundsRead"
  unfolding decodeS16LE_def
  by (erule bindF_fault, erule decodeU16LE_fault, simp)

lemma decodeCalibration_fault: "decodeCalibration g cal = Inl e \<Longrightarrow> e = OutOfBoundsRead"
  unfolding decodeCalibration_def
  by (erule bindF_fault, (erule decodeU16LE_fault decodeS16LE_fault rd_fault)?)+ simp

lemma decodeCalibration_Inr_length: "decodeCalibration g cal = Inr c \<Longrightarrow> 26 \<le> length cal"
  by (auto simp add: decodeCalibration_def bindF_Inr_iff rd_def split: if_splits)

lemma decodeCalibration_short:
  "length cal < 26 \<Longrightarrow> decodeCalibration g cal = Inl OutOfBoundsRead"
  by (cases "decodeCalibration g cal")
    (auto dest: decodeCalibration_fault decodeCalibration_Inr_length)

text \<open>
  C7, as stated: on a buffer shorter than 26 bytes, such as one of 20 bytes, the
  calibration decode fails with an error surfaced to the caller and reads no byte out
  of bounds. It does not hold. \<^verbatim>\<open>decodeCalibration\<close> takes a bare pointer, checks
  nothing and can return nothing but a \<^verbatim>\<open>Calibration\<close>: on the first 20 bytes of the
  sample block it decodes P7 from offsets 18 and 19 and then reads offset 20, past the
  end of the buffer.
\<close>

theorem decodeCalibration_20_bytes:
  "length (take 20 calibration) = 20
   \<and> decodeS16LE (drop 18 (take 20 calibration)) = Inr 15500
   \<and> rd (drop 20 (take 20 calibration)) 0 = Inl OutOfBoundsRead
   \<and> decodeS16LE (drop 20 (take 20 calibration)) = Inl OutOfBoundsRead
   \<and> decodeCalibration blank (take 20 calibration) = Inl OutOfBoundsRead"
  by (simp add: calibration_def decodeCalibration_def decodeU16LE_def decodeS16LE_def
      rd_def bindF_def)

text \<open>
  C7, amended: \<^verbatim>\<open>decodeCalibration\<close> performs no length check and has no error return.
  On every buffer shorter than 26 bytes it reads past the end of the buffer, which is
  undefined behaviour and not an error surfaced to the caller; on every buffer of at
  least 26 bytes it returns a \<^verbatim>\<open>Calibration\<close>.
\<close>

theorem decodeCalibration_unchecked:
  "(length cal < 26 \<longrightarrow> decodeCalibration g cal = Inl OutOfBoundsRead)
   \<and> (26 \<le> length cal \<longrightarrow> (\<exists>c. decodeCalibration g cal = Inr c))"
  by (simp add: decodeCalibration_short decodeCalibration_26)

theorem decodeCalibration_unchecked_witness:
  "length (take 25 calibration) < 26
   \<and> decodeCalibration blank (take 25 calibration) = Inl OutOfBoundsRead
   \<and> 26 \<le> length calibration \<and> (\<exists>c. decodeCalibration blank calibration = Inr c)"
  using decodeCalibration_unchecked [of "take 25 calibration" blank]
    decodeCalibration_unchecked [of calibration blank]
  by (simp add: calibration_def)

subsection \<open>What the result depends on\<close>

lemma temperature_block_cong:
  "coefficients c = coefficients c' \<Longrightarrow>
   temperature_block c meas r = temperature_block c' meas r"
  by (simp add: temperature_block_def coefficients_def Let_def cong del: if_weak_cong)

lemma pressure_block_cong:
  "coefficients c = coefficients c' \<Longrightarrow>
   pressure_block c meas t r = pressure_block c' meas t r"
  by (simp add: pressure_block_def coefficients_def Let_def cong del: if_weak_cong)

lemma decodeCalibration_uninit:
  "map_sum id coefficients (decodeCalibration g cal)
   = map_sum id coefficients (decodeCalibration g' cal)"
  by (simp add: decodeCalibration_def bindF_def coefficients_def split: sum.split)

lemma decode_cong:
  assumes "map_sum id coefficients (decodeCalibration g cal)
         = map_sum id coefficients (decodeCalibration g' cal')"
  shows "decode g cal meas = decode g' cal' meas"
proof (cases "decodeCalibration g cal")
  case (Inl e)
  with assms show ?thesis
    by (cases "decodeCalibration g' cal'") (simp_all add: decode_def bindF_def)
next
  case (Inr c)
  with assms obtain c' where c': "decodeCalibration g' cal' = Inr c'"
    "coefficients c = coefficients c'"
    by (cases "decodeCalibration g' cal'") simp_all
  show ?thesis
    by (simp add: decode_def Inr c' bindF_def temperature_block_cong [OF c'(2)]
        pressure_block_cong [OF c'(2)] split: sum.split)
qed

lemma take_nth_eq: "take n xs = take n ys \<Longrightarrow> i < n \<Longrightarrow> xs ! i = ys ! i"
  by (metis nth_take)

lemma decode_meas_cong:
  assumes "6 \<le> length m" "6 \<le> length m'" "take 6 m = take 6 m'"
  shows "decode g cal m = decode g cal m'"
proof -
  have nth: "m ! i = m' ! i" if "i < 6" for i
    using assms(3) that by (rule take_nth_eq)
  have "decode20bit m = decode20bit m'" "decode20bit (drop 3 m) = decode20bit (drop 3 m')"
    using assms(1,2) by (simp_all add: decode20bit_3 nth)
  then show ?thesis
    by (simp add: decode_def temperature_block_def pressure_block_def)
qed

text \<open>
  C8. \<^verbatim>\<open>decode\<close> is deterministic. Its result is a function of the bytes of the two
  buffers; the one thing an invocation has besides them is the prior content of the
  uninitialised \<^verbatim>\<open>Calibration\<close> object, and two invocations on the same buffers that
  differ in it return the same outcome, with equal pressure, temperature and humidity.
\<close>

theorem decode_deterministic:
  "decode g cal meas = decode g' cal meas"
  by (rule decode_cong) (rule decodeCalibration_uninit)

text \<open>
  C10. The result of \<^verbatim>\<open>decode\<close> depends only on the calibration bytes 0 to 23 and
  the measurement bytes 0 to 5: on calibration buffers of at least 26 bytes that agree
  on their first 24 bytes and measurement buffers of at least 6 bytes that agree on
  their first 6 bytes, \<^verbatim>\<open>decode\<close> returns equal results. The calibration bytes 24 and
  25 and the measurement bytes 6 and 7 influence no field.
\<close>

theorem decode_depends_on:
  assumes "26 \<le> length c" "26 \<le> length c'" "take 24 c = take 24 c'"
    and "6 \<le> length m" "6 \<le> length m'" "take 6 m = take 6 m'"
  shows "decode g c m = decode g' c' m'"
proof -
  have nth: "c ! i = c' ! i" if "i < 24" for i
    using assms(3) that by (rule take_nth_eq)
  have "map_sum id coefficients (decodeCalibration g c)
      = map_sum id coefficients (decodeCalibration g' c')"
    using assms(1,2) by (simp add: decodeCalibration_26 coefficients_def nth)
  then have "decode g c m = decode g' c' m"
    by (rule decode_cong)
  also have "\<dots> = decode g' c' m'"
    using assms(4-6) by (rule decode_meas_cong)
  finally show ?thesis .
qed

theorem decode_depends_on_witness:
  "26 \<le> length calibration \<and> 26 \<le> length (take 24 calibration @ [0xAA, 0xBB])
   \<and> take 24 calibration = take 24 (take 24 calibration @ [0xAA, 0xBB])
   \<and> 6 \<le> length measurement \<and> 6 \<le> length (take 6 measurement @ [0xCC, 0xDD])
   \<and> take 6 measurement = take 6 (take 6 measurement @ [0xCC, 0xDD])
   \<and> decode blank calibration measurement
       = decode blank (take 24 calibration @ [0xAA, 0xBB]) (take 6 measurement @ [0xCC, 0xDD])"
  using decode_depends_on [of calibration "take 24 calibration @ [0xAA, 0xBB]"
      measurement "take 6 measurement @ [0xCC, 0xDD]" blank blank]
  by (simp add: calibration_def measurement_def)

subsection \<open>The two blocks on a measurement block that is long enough\<close>

lemma wrap32_range: "- 2147483648 \<le> wrap32 k" "wrap32 k < 2147483648"
proof -
  have "0 \<le> (k + 2147483648) mod 4294967296" "(k + 2147483648) mod 4294967296 < 4294967296"
    by simp_all
  then show "- 2147483648 \<le> wrap32 k" "wrap32 k < 2147483648"
    unfolding wrap32_def by linarith+
qed

lemma stageA_T_range: "\<bar>stageA_T t\<bar> < 2 ^ 24"
proof -
  define w where "w = wrap32 (wrap32 (t * 5) + 128)"
  have "- 2147483648 \<le> w" "w < 2147483648"
    unfolding w_def by (rule wrap32_range)+
  then have "- 8388608 \<le> w div 256" "w div 256 < 8388608"
    by linarith+
  then show ?thesis
    by (simp add: stageA_T_def asr_def w_def [symmetric])
qed

lemma f32_of_i32_exact: "\<bar>sint i\<bar> < 2 ^ 24 \<Longrightarrow> f32_of_i32 i = of_int (sint i)"
  unfolding f32_of_i32_def by (rule round_to_of_int)

lemma f32_of_i32_100: "f32_of_i32 100 = 100"
  using f32_of_i32_exact [of 100] by simp

lemma temperature_block_6:
  assumes "6 \<le> length meas"
  shows "temperature_block dig meas r
         = Inr (word_of_int (t_fine_of dig meas), r\<lparr>temp := temperature_of dig meas\<rparr>)"
proof -
  define temp_raw :: i32 where
    "temp_raw = push_bit 12 (ucast (meas ! 3)) OR push_bit 4 (ucast (meas ! 4))
                OR drop_bit 4 (ucast (meas ! 5))"
  define var1 where "var1 = signed_drop_bit 11
                    ((signed_drop_bit 3 temp_raw - push_bit 1 (ucast (T1 dig) :: i32))
                     * (scast (T2 dig) :: i32))"
  define var2 where "var2 = signed_drop_bit 14
                    (signed_drop_bit 12
                       ((signed_drop_bit 4 temp_raw - (ucast (T1 dig) :: i32))
                        * (signed_drop_bit 4 temp_raw - (ucast (T1 dig) :: i32)))
                     * (scast (T3 dig) :: i32))"
  define T where "T = signed_drop_bit 8 ((var1 + var2) * 5 + 128)"
  have raw: "decode20bit (drop 3 meas) = Inr temp_raw"
    using assms by (simp add: decode20bit_3 temp_raw_def)
  have sraw: "sint temp_raw = raw20 meas 3"
    by (simp add: temp_raw_def sint_20bit raw20_3)
  have tf: "sint (var1 + var2) = t_fine_of dig meas"
    unfolding var1_def var2_def t_fine_of_def sraw [symmetric] by (rule stageA_refines(3))
  have "word_of_int (sint (var1 + var2)) = var1 + var2"
    by simp
  then have w: "var1 + var2 = word_of_int (t_fine_of dig meas)"
    by (simp only: tf)
  have sT: "sint T = stageA_T (t_fine_of dig meas)"
    unfolding T_def var1_def var2_def tf [unfolded var1_def var2_def, symmetric]
    by (rule stageA_refines(4))
  have "f32_of_i32 T = of_int (stageA_T (t_fine_of dig meas))"
    using f32_of_i32_exact [of T] stageA_T_range [of "t_fine_of dig meas"]
    by (simp add: sT)
  then have t: "f32_div (f32_of_i32 T) (f32_of_i32 100) = temperature_of dig meas"
    by (simp add: temperature_of_def f32_of_i32_100)
  have "temperature_block dig meas r
        = Inr (var1 + var2, r\<lparr>temp := f32_div (f32_of_i32 T) (f32_of_i32 100)\<rparr>)"
    unfolding temperature_block_def raw var1_def var2_def T_def
    by (simp only: bindF_def Let_def sum.case)
  then show ?thesis
    by (simp only: w t)
qed

lemma sint_t_fine_of: "sint (word_of_int (t_fine_of dig meas) :: i32) = t_fine_of dig meas"
proof -
  have "- (2 ^ 31) \<le> t_fine_of dig meas" "t_fine_of dig meas < 2 ^ 31"
    using wrap32_range by (simp_all add: t_fine_of_def stageA_t_fine_def)
  then show ?thesis
    by (simp add: signed_of_int signed_take_bit_int_eq_self)
qed

lemma pressure_block_temp:
  "pressure_block dig meas t r = Inr res \<Longrightarrow> temp res = temp r \<and> humidity res = humidity r"
  by (auto simp add: pressure_block_def bindF_Inr_iff Let_def split: if_splits)

lemma decode_26_6:
  assumes "decodeCalibration g cal = Inr dig" "6 \<le> length meas"
  shows "decode g cal meas =
     pressure_block dig meas (word_of_int (t_fine_of dig meas))
       \<lparr>pressure = 0, temp = temperature_of dig meas, humidity = 0\<rparr>"
  by (simp add: decode_def assms(1) temperature_block_6 [OF assms(2)] bindF_def)

lemma decode_eval:
  assumes "decodeCalibration g cal = Inr dig" "6 \<le> length meas"
  shows "decode g cal meas =
     (if pressure_var1 dig (word_of_int (t_fine_of dig meas)) \<noteq> 0
      then bindF (pressure_p dig (word_of_int (t_fine_of dig meas)) (word_of_int (raw20 meas 0)))
             (\<lambda>p. Inr \<lparr>pressure = f32_of_f64 (f64_div (f64_of_i64 p) 256),
                        temp = temperature_of dig meas, humidity = 0\<rparr>)
      else Inr \<lparr>pressure = 0, temp = temperature_of dig meas, humidity = 0\<rparr>)"
proof -
  have "3 \<le> length meas"
    using assms(2) by simp
  then obtain adc_P where a: "decode20bit meas = Inr adc_P" "sint adc_P = raw20 meas 0"
    and p: "pressure_block dig meas (word_of_int (t_fine_of dig meas))
              \<lparr>pressure = 0, temp = temperature_of dig meas, humidity = 0\<rparr> =
       (if pressure_var1 dig (word_of_int (t_fine_of dig meas)) \<noteq> 0
        then bindF (pressure_p dig (word_of_int (t_fine_of dig meas)) adc_P) (\<lambda>p.
               Inr (\<lparr>pressure = 0, temp = temperature_of dig meas, humidity = 0\<rparr>
                      \<lparr>pressure := f32_of_f64 (f64_div (f64_of_i64 p) 256)\<rparr>))
        else Inr \<lparr>pressure = 0, temp = temperature_of dig meas, humidity = 0\<rparr>)"
    using pressure_block_3 [of meas dig "word_of_int (t_fine_of dig meas)"
        "\<lparr>pressure = 0, temp = temperature_of dig meas, humidity = 0\<rparr>"]
    by blast
  have "word_of_int (sint adc_P) = adc_P"
    by simp
  then have "adc_P = word_of_int (raw20 meas 0)"
    by (simp only: a(2))
  then show ?thesis
    unfolding decode_26_6 [OF assms] p by simp
qed

lemma sample_dig_decoded: "decodeCalibration blank calibration = Inr sample_dig"
  by (simp add: decodeCalibration_26 calibration_def le16_def sample_dig_def blank_def)

lemma sample_t_fine: "t_fine_of sample_dig measurement = 120082"
  by (simp add: t_fine_of_def raw20_3 measurement_def sample_dig_def blank_def
      stageA_t_fine_def stageA_var1_def stageA_var2_def asr_def wrap32_def)

lemma sample_T: "stageA_T 120082 = 2345"
  by (simp add: stageA_T_def asr_def wrap32_def)

lemma f32_div_2345: "f32_div 2345 100 = 6147277 / 262144"
  unfolding f32_div_def by code_simp

lemma sample_temperature: "temperature_of sample_dig measurement = 6147277 / 262144"
  by (simp add: temperature_of_def sample_t_fine sample_T f32_div_2345)

lemma sample_var1: "pressure_var1 sample_dig 120082 = 595489551"
  by (simp add: pressure_var1_def sample_dig_def blank_def)

lemma sample_p: "pressure_p sample_dig 120082 442480 = Inr 25450028"
  by (simp add: pressure_p_def pressure_var1_def pressure_var2_def sample_dig_def blank_def
      sdiv64_def bindF_def Let_def)

lemma sample_pressure: "f32_of_f64 (f64_div (f64_of_i64 25450028) 256) = 6362507 / 64"
  unfolding f32_of_f64_def f64_div_def f64_of_i64_def by code_simp

lemma sample_raw0: "raw20 measurement 0 = 442480"
  by (simp add: raw20_0 measurement_def)

lemma sample_decoded:
  "decode blank calibration measurement
   = Inr \<lparr>pressure = 6362507 / 64, temp = 6147277 / 262144, humidity = 0\<rparr>"
proof -
  have "6 \<le> length measurement"
    by (simp add: measurement_def)
  from decode_eval [OF sample_dig_decoded this] show ?thesis
    by (simp add: sample_t_fine sample_var1 sample_raw0 sample_p sample_pressure
        sample_temperature bindF_def)
qed

lemma decode_temp:
  assumes "decodeCalibration g cal = Inr dig" "6 \<le> length meas" "decode g cal meas = Inr res"
  shows "temp res = temperature_of dig meas" "humidity res = 0"
  using assms(3) pressure_block_temp unfolding decode_26_6 [OF assms(1,2)]
  by fastforce+


subsection \<open>Compensation engine\<close>

text \<open>
  C2. For every calibration that \<^verbatim>\<open>decodeCalibration\<close> returns and every measurement
  block of at least 6 bytes (so for every 8-byte block), Stage A of \<^verbatim>\<open>decode\<close> computes
  in 32-bit signed arithmetic with arithmetic right shifts: \<^verbatim>\<open>temp_raw\<close> is the 20-bit
  value of bytes 3 to 5, \<^verbatim>\<open>var1 = (((temp_raw >> 3) - (T1 << 1)) * T2) >> 11\<close>,
  \<^verbatim>\<open>var2 = (((((temp_raw >> 4) - T1) * ((temp_raw >> 4) - T1)) >> 12) * T3) >> 14\<close>,
  \<^verbatim>\<open>t_fine = var1 + var2\<close> and \<^verbatim>\<open>T = (t_fine * 5 + 128) >> 8\<close>, as \<open>stageA_var1\<close>,
  \<open>stageA_var2\<close>, \<open>stageA_t_fine\<close> and \<open>stageA_T\<close> word them on integers. The
  temperature of the result is the floating-point quotient of \<open>T\<close> by 100 (rounded to
  the precision of the \<^verbatim>\<open>float\<close> field), and the same \<^verbatim>\<open>t_fine\<close> is what the pressure
  block receives.
\<close>

theorem stage_A_temperature:
  assumes "decodeCalibration g cal = Inr dig" and "6 \<le> length meas"
  shows "map_sum id sint (decode20bit (drop 3 meas)) = Inr (raw20 meas 3)
     \<and> temperature_block dig meas r
         = Inr (word_of_int (t_fine_of dig meas), r\<lparr>temp := temperature_of dig meas\<rparr>)
     \<and> sint (word_of_int (t_fine_of dig meas) :: i32) = t_fine_of dig meas
     \<and> temperature_of dig meas = round_to 24 (of_int (stageA_T (t_fine_of dig meas)) / 100)
     \<and> decode g cal meas
         = pressure_block dig meas (word_of_int (t_fine_of dig meas))
             \<lparr>pressure = 0, temp = temperature_of dig meas, humidity = 0\<rparr>
     \<and> (\<forall>res. decode g cal meas = Inr res \<longrightarrow> temp res = temperature_of dig meas)"
proof -
  have "map_sum id sint (decode20bit (drop 3 meas)) = Inr (raw20 meas 3)"
    using assms(2) by (simp add: decode20bit_3 sint_20bit raw20_3)
  moreover have "temperature_of dig meas = round_to 24 (of_int (stageA_T (t_fine_of dig meas)) / 100)"
    by (simp add: temperature_of_def f32_div_def)
  moreover have "\<forall>res. decode g cal meas = Inr res \<longrightarrow> temp res = temperature_of dig meas"
    using decode_temp(1) [OF assms] by blast
  ultimately show ?thesis
    using temperature_block_6 [OF assms(2)] sint_t_fine_of decode_26_6 [OF assms]
    by blast
qed

theorem stage_A_temperature_witness:
  "decodeCalibration blank calibration = Inr sample_dig \<and> 6 \<le> length measurement
   \<and> raw20 measurement 3 = 517312
   \<and> stageA_var1 517312 27702 26629 = 120402 \<and> stageA_var2 517312 27702 (- 1000) = - 320
   \<and> t_fine_of sample_dig measurement = 120082 \<and> stageA_T 120082 = 2345
   \<and> temperature_block sample_dig measurement \<lparr>pressure = 0, temp = 0, humidity = 0\<rparr>
       = Inr (120082, \<lparr>pressure = 0, temp = 6147277 / 262144, humidity = 0\<rparr>)
   \<and> decode blank calibration measurement
       = pressure_block sample_dig measurement 120082
           \<lparr>pressure = 0, temp = 6147277 / 262144, humidity = 0\<rparr>"
proof -
  have l: "6 \<le> length measurement"
    by (simp add: measurement_def)
  have "raw20 measurement 3 = 517312"
    by (simp add: raw20_3 measurement_def)
  moreover have "stageA_var1 517312 27702 26629 = 120402" "stageA_var2 517312 27702 (- 1000) = - 320"
    by (simp_all add: stageA_var1_def stageA_var2_def asr_def wrap32_def)
  ultimately show ?thesis
    using stage_A_temperature [OF sample_dig_decoded l,
        of "\<lparr>pressure = 0, temp = 0, humidity = 0\<rparr>"]
    by (simp add: sample_dig_decoded l sample_t_fine sample_T sample_temperature)
qed


text \<open>
  C3. In the pressure stage of \<^verbatim>\<open>decode\<close>, whenever the 64-bit value \<^verbatim>\<open>var1\<close> computed
  as \<^verbatim>\<open>(((1 << 47) + var1) * P1) >> 33\<close> is 0, which it is for every calibration with
  P1 = 0, the division by \<^verbatim>\<open>var1\<close> is not executed: \<^verbatim>\<open>decode\<close> returns a measurement
  (no division fault) whose pressure is exactly 0, with the temperature of Stage A.
\<close>

theorem pressure_degenerate:
  "(P1 dig = 0 \<longrightarrow> pressure_var1 dig t = 0)
   \<and> (decodeCalibration g cal = Inr dig \<and> 6 \<le> length meas
        \<and> pressure_var1 dig (word_of_int (t_fine_of dig meas)) = 0 \<longrightarrow>
      decode g cal meas = Inr \<lparr>pressure = 0, temp = temperature_of dig meas, humidity = 0\<rparr>)"
proof (rule conjI)
  show "P1 dig = 0 \<longrightarrow> pressure_var1 dig t = 0"
    by (simp add: pressure_var1_def Let_def)
  show "decodeCalibration g cal = Inr dig \<and> 6 \<le> length meas
        \<and> pressure_var1 dig (word_of_int (t_fine_of dig meas)) = 0 \<longrightarrow>
      decode g cal meas = Inr \<lparr>pressure = 0, temp = temperature_of dig meas, humidity = 0\<rparr>"
    by (auto simp add: decode_eval)
qed

theorem pressure_degenerate_witness:
  "P1 (sample_dig\<lparr>P1 := 0\<rparr>) = 0
   \<and> decodeCalibration blank (calibration[6 := 0, 7 := 0]) = Inr (sample_dig\<lparr>P1 := 0\<rparr>)
   \<and> 6 \<le> length measurement
   \<and> pressure_var1 (sample_dig\<lparr>P1 := 0\<rparr>)
        (word_of_int (t_fine_of (sample_dig\<lparr>P1 := 0\<rparr>) measurement)) = 0
   \<and> decode blank (calibration[6 := 0, 7 := 0]) measurement
       = Inr \<lparr>pressure = 0, temp = 6147277 / 262144, humidity = 0\<rparr>"
proof -
  have c: "decodeCalibration blank (calibration[6 := 0, 7 := 0]) = Inr (sample_dig\<lparr>P1 := 0\<rparr>)"
    by (simp add: decodeCalibration_26 calibration_def le16_def sample_dig_def blank_def)
  have l: "6 \<le> length measurement"
    by (simp add: measurement_def)
  have t: "temperature_of (sample_dig\<lparr>P1 := 0\<rparr>) measurement = 6147277 / 262144"
    using sample_temperature by (simp add: temperature_of_def t_fine_of_def)
  show ?thesis
    using pressure_degenerate [of "sample_dig\<lparr>P1 := 0\<rparr>"
        "word_of_int (t_fine_of (sample_dig\<lparr>P1 := 0\<rparr>) measurement)" blank
        "calibration[6 := 0, 7 := 0]" measurement]
    by (simp add: c l t)
qed

lemma decode_humidity: "decode g cal meas = Inr res \<Longrightarrow> humidity res = 0"
proof -
  assume d: "decode g cal meas = Inr res"
  then obtain dig where c: "decodeCalibration g cal = Inr dig"
    by (auto simp add: decode_def bindF_Inr_iff)
  with d obtain t r where t: "temperature_block dig meas \<lparr>pressure = 0, temp = 0, humidity = 0\<rparr> = Inr (t, r)"
    and p: "pressure_block dig meas t r = Inr res"
    by (auto simp add: decode_def bindF_Inr_iff)
  from t have "humidity r = 0"
    by (auto simp add: temperature_block_def bindF_Inr_iff Let_def)
  with pressure_block_temp [OF p] show ?thesis by simp
qed


text \<open>
  C4. On the sample arrays \<^verbatim>\<open>calibration\<close> and \<^verbatim>\<open>measurement\<close>, \<^verbatim>\<open>decode\<close> returns the
  temperature \<open>T / 100\<close> for the integer \<open>T = 2345\<close> of the Stage A formula (the
  \<^verbatim>\<open>float\<close> quotient, 6147277 / 262144), a pressure that is not zero (99414.171875; the
  guard value \<^verbatim>\<open>var1\<close> is not 0 for this vector) and the humidity 0. The humidity is 0
  in every measurement that \<^verbatim>\<open>decode\<close> returns.
\<close>

theorem decode_sample_result:
  "decode g calibration measurement
     = Inr \<lparr>pressure = 6362507 / 64, temp = 6147277 / 262144, humidity = 0\<rparr>
   \<and> stageA_T (t_fine_of sample_dig measurement) = 2345
   \<and> (6147277 / 262144 :: rat) = f32_div 2345 100
   \<and> pressure_var1 sample_dig (word_of_int (t_fine_of sample_dig measurement)) \<noteq> 0
   \<and> (6362507 / 64 :: rat) \<noteq> 0
   \<and> (\<forall>g' cal meas res. decode g' cal meas = Inr res \<longrightarrow> humidity res = 0)"
proof -
  have "decode g calibration measurement = decode blank calibration measurement"
    by (rule decode_cong) (rule decodeCalibration_uninit)
  then have "decode g calibration measurement
     = Inr \<lparr>pressure = 6362507 / 64, temp = 6147277 / 262144, humidity = 0\<rparr>"
    by (simp only: sample_decoded)
  moreover have "stageA_T (t_fine_of sample_dig measurement) = 2345"
    by (simp add: sample_t_fine sample_T)
  moreover have "pressure_var1 sample_dig (word_of_int (t_fine_of sample_dig measurement)) \<noteq> 0"
    by (simp add: sample_t_fine sample_var1)
  moreover have "\<forall>g' cal meas res. decode g' cal meas = Inr res \<longrightarrow> humidity res = 0"
    using decode_humidity by blast
  ultimately show ?thesis
    by (simp add: f32_div_2345)
qed

theorem decode_sample_result_witness:
  "decode blank calibration measurement
     = Inr \<lparr>pressure = 6362507 / 64, temp = 6147277 / 262144, humidity = 0\<rparr>
   \<and> humidity \<lparr>pressure = 6362507 / 64, temp = 6147277 / 262144, humidity = 0\<rparr> = 0"
  using decode_sample_result [of blank] by simp

subsection \<open>The precision of the result\<close>

lemma is_binary32_iff:
  "is_binary32 x \<longleftrightarrow> (\<exists>m e. x = of_int m * 2 powi e \<and> \<bar>m\<bar> < 2 ^ 24)"
proof
  assume "is_binary32 x"
  then have "round_to 24 x = x"
    by (simp add: is_binary32_def)
  with round_to_repr [of 24 x] show "\<exists>m e. x = of_int m * 2 powi e \<and> \<bar>m\<bar> < 2 ^ 24"
    by simp
next
  assume "\<exists>m e. x = of_int m * 2 powi e \<and> \<bar>m\<bar> < 2 ^ 24"
  then show "is_binary32 x"
    unfolding is_binary32_def using round_to_exact by blast
qed

lemma is_binary32_round: "is_binary32 (round_to 24 x)"
  by (simp add: is_binary32_def round_to_idem)

lemma is_binary32_0: "is_binary32 0"
  by (simp add: is_binary32_def round_to_def)

lemma temperature_block_binary32:
  "temperature_block dig meas \<lparr>pressure = 0, temp = 0, humidity = 0\<rparr> = Inr (t, r) \<Longrightarrow>
   pressure r = 0 \<and> is_binary32 (temp r) \<and> humidity r = 0"
  by (auto simp add: temperature_block_def bindF_Inr_iff Let_def f32_div_def is_binary32_round)

lemma pressure_block_binary32:
  "pressure_block dig meas t r = Inr res \<Longrightarrow>
   (pressure res = pressure r \<or> is_binary32 (pressure res))
   \<and> temp res = temp r \<and> humidity res = humidity r"
  by (auto simp add: pressure_block_def bindF_Inr_iff Let_def f32_of_f64_def is_binary32_round
      split: if_splits)

lemma decode_binary32:
  assumes "decode g cal meas = Inr res"
  shows "is_binary32 (pressure res) \<and> is_binary32 (temp res) \<and> is_binary32 (humidity res)"
proof -
  from assms obtain dig t r where
    t: "temperature_block dig meas \<lparr>pressure = 0, temp = 0, humidity = 0\<rparr> = Inr (t, r)"
    and p: "pressure_block dig meas t r = Inr res"
    by (auto simp add: decode_def bindF_Inr_iff)
  from temperature_block_binary32 [OF t] pressure_block_binary32 [OF p] show ?thesis
    by (auto simp add: is_binary32_0)
qed

lemma cx_calibration:
  "raw20 [0x6C, 0x07, 0x10, 0x7E, 0x4C, 0x00, 0x00, 0x00] 0 = 442481"
  "t_fine_of sample_dig [0x6C, 0x07, 0x10, 0x7E, 0x4C, 0x00, 0x00, 0x00] = 120082"
  "temperature_of sample_dig [0x6C, 0x07, 0x10, 0x7E, 0x4C, 0x00, 0x00, 0x00] = 6147277 / 262144"
proof -
  show "raw20 [0x6C, 0x07, 0x10, 0x7E, 0x4C, 0x00, 0x00, 0x00] 0 = 442481"
    by (simp add: raw20_0)
  have "raw20 [0x6C, 0x07, 0x10, 0x7E, 0x4C, 0x00, 0x00, 0x00] 3 = raw20 measurement 3"
    by (simp add: raw20_3 measurement_def)
  then show t: "t_fine_of sample_dig [0x6C, 0x07, 0x10, 0x7E, 0x4C, 0x00, 0x00, 0x00] = 120082"
    using sample_t_fine by (simp add: t_fine_of_def)
  show "temperature_of sample_dig [0x6C, 0x07, 0x10, 0x7E, 0x4C, 0x00, 0x00, 0x00] = 6147277 / 262144"
    by (simp add: temperature_of_def t sample_T f32_div_2345)
qed

lemma cx_p: "pressure_p sample_dig 120082 442481 = Inr 25449983"
  by (simp add: pressure_p_def pressure_var1_def pressure_var2_def sample_dig_def blank_def
      sdiv64_def bindF_def Let_def)

lemma cx_double: "f64_div (f64_of_i64 25449983) 256 = 25449983 / 256"
  unfolding f64_div_def f64_of_i64_def by code_simp

lemma cx_float: "f32_of_f64 (25449983 / 256) = 99414"
  unfolding f32_of_f64_def by code_simp

lemma cx_not_float: "\<not> is_binary32 (25449983 / 256)"
  using cx_float by (simp add: is_binary32_def f32_of_f64_def)

lemma decode_cx:
  "decode blank calibration [0x6C, 0x07, 0x10, 0x7E, 0x4C, 0x00, 0x00, 0x00]
   = Inr \<lparr>pressure = 99414, temp = 6147277 / 262144, humidity = 0\<rparr>"
proof -
  have "6 \<le> length [0x6C, 0x07, 0x10, 0x7E, 0x4C, 0x00, 0x00, 0x00 :: u8]"
    by simp
  from decode_eval [OF sample_dig_decoded this] show ?thesis
    by (simp add: cx_calibration sample_var1 cx_p cx_double cx_float bindF_def)
qed


text \<open>
  C9, as stated: the fields of the \<^verbatim>\<open>Measurement\<close> that \<^verbatim>\<open>decode\<close> returns are 64-bit
  floating-point values. It does not hold: the fields are declared \<^verbatim>\<open>float\<close>. A
  64-bit field would hold the \<^verbatim>\<open>double\<close> value of \<^verbatim>\<open>p / 256.0\<close> unchanged. On the sample
  calibration and the measurement block 6C 07 10 7E 4C 00 00 00 the fixed-point
  pressure \<^verbatim>\<open>p\<close> is 25449983 and \<^verbatim>\<open>p / 256.0\<close> is 99413.99609375 as a \<^verbatim>\<open>double\<close>, but the
  pressure field of the result holds 99414, the nearest \<^verbatim>\<open>float\<close>.
\<close>

theorem pressure_field_not_double:
  "decode blank calibration [0x6C, 0x07, 0x10, 0x7E, 0x4C, 0x00, 0x00, 0x00]
     = Inr \<lparr>pressure = 99414, temp = 6147277 / 262144, humidity = 0\<rparr>
   \<and> pressure_p sample_dig 120082 442481 = Inr 25449983
   \<and> f64_div (f64_of_i64 25449983) 256 = 25449983 / 256
   \<and> \<not> is_binary32 (f64_div (f64_of_i64 25449983) 256)
   \<and> pressure \<lparr>pressure = 99414, temp = 6147277 / 262144, humidity = 0\<rparr>
       \<noteq> f64_div (f64_of_i64 25449983) 256"
  using cx_not_float by (simp add: decode_cx cx_p cx_double)


text \<open>
  C9, amended: the \<^verbatim>\<open>Measurement\<close> that \<^verbatim>\<open>decode\<close> returns carries its pressure (Pa),
  temperature (degrees Celsius) and humidity fields as 32-bit floating-point (binary32)
  values: each field holds a value with a 24-bit significand. When the guard value
  \<^verbatim>\<open>var1\<close> is not 0 the pressure is the \<^verbatim>\<open>double\<close> quotient \<^verbatim>\<open>p / 256.0\<close> rounded to
  binary32, and the temperature is the binary32 quotient of \<open>T\<close> by 100.
\<close>

theorem measurement_fields_binary32:
  "(decode g cal meas = Inr res \<longrightarrow>
      is_binary32 (pressure res) \<and> is_binary32 (temp res) \<and> is_binary32 (humidity res))
   \<and> (decodeCalibration g cal = Inr dig \<and> 6 \<le> length meas \<and> decode g cal meas = Inr res
        \<and> pressure_var1 dig (word_of_int (t_fine_of dig meas)) \<noteq> 0 \<longrightarrow>
      (\<exists>p. pressure_p dig (word_of_int (t_fine_of dig meas)) (word_of_int (raw20 meas 0)) = Inr p
           \<and> pressure res = f32_of_f64 (f64_div (f64_of_i64 p) 256)
           \<and> temp res = f32_div (of_int (stageA_T (t_fine_of dig meas))) 100))"
proof (intro conjI impI)
  assume "decode g cal meas = Inr res"
  then show "is_binary32 (pressure res)" "is_binary32 (temp res)" "is_binary32 (humidity res)"
    using decode_binary32 by blast+
next
  assume a: "decodeCalibration g cal = Inr dig \<and> 6 \<le> length meas \<and> decode g cal meas = Inr res
        \<and> pressure_var1 dig (word_of_int (t_fine_of dig meas)) \<noteq> 0"
  then have "bindF (pressure_p dig (word_of_int (t_fine_of dig meas)) (word_of_int (raw20 meas 0)))
             (\<lambda>p. Inr \<lparr>pressure = f32_of_f64 (f64_div (f64_of_i64 p) 256),
                        temp = temperature_of dig meas, humidity = 0\<rparr>) = Inr res"
    using decode_eval [of g cal dig meas] by simp
  then show "\<exists>p. pressure_p dig (word_of_int (t_fine_of dig meas)) (word_of_int (raw20 meas 0)) = Inr p
           \<and> pressure res = f32_of_f64 (f64_div (f64_of_i64 p) 256)
           \<and> temp res = f32_div (of_int (stageA_T (t_fine_of dig meas))) 100"
    by (auto simp add: bindF_Inr_iff temperature_of_def)
qed

theorem measurement_fields_binary32_witness:
  "decode blank calibration [0x6C, 0x07, 0x10, 0x7E, 0x4C, 0x00, 0x00, 0x00]
     = Inr \<lparr>pressure = 99414, temp = 6147277 / 262144, humidity = 0\<rparr>
   \<and> decodeCalibration blank calibration = Inr sample_dig
   \<and> 6 \<le> length [0x6C, 0x07, 0x10, 0x7E, 0x4C, 0x00, 0x00, 0x00 :: u8]
   \<and> pressure_var1 sample_dig
        (word_of_int (t_fine_of sample_dig [0x6C, 0x07, 0x10, 0x7E, 0x4C, 0x00, 0x00, 0x00])) \<noteq> 0
   \<and> is_binary32 99414 \<and> is_binary32 (6147277 / 262144) \<and> is_binary32 0
   \<and> (99414 :: rat) = f32_of_f64 (f64_div (f64_of_i64 25449983) 256)"
  using measurement_fields_binary32 [of blank calibration
      "[0x6C, 0x07, 0x10, 0x7E, 0x4C, 0x00, 0x00, 0x00]"
      "\<lparr>pressure = 99414, temp = 6147277 / 262144, humidity = 0\<rparr>" sample_dig]
  by (simp add: decode_cx sample_dig_decoded cx_calibration sample_var1 cx_p)

end
